theory Spec2Isabelle
  imports Complex_Main
begin

section \<open>Chunk-based audio player (static/js/studio/player.js)\<close>

text \<open>
  The player keeps its position in module-level variables. The model passes them around
  as one record. JavaScript numbers are modelled as exact reals: rounding of doubles is
  not represented, and \<open>NaN\<close>/\<open>undefined\<close>/\<open>null\<close> are the value \<open>None\<close> of an option.
\<close>

subsection \<open>Data\<close>

record chunk =
  chunk_index :: int
  duration_secs :: "real option"
  status :: string

record episode =
  episode_id :: int
  title :: string
  episode_chunks :: "chunk list option"
  current_chunk_index :: "int option"
  position_secs :: "real option"

text \<open>
  The media element. \<open>duration\<close> is \<open>None\<close> while the element reports \<open>NaN\<close>;
  \<open>src\<close> is the pair (episode id, chunk index) that \<open>api.chunkAudioUrl\<close> encodes.
\<close>

record audio_element =
  src :: "int \<times> int"
  currentTime :: real
  duration :: "real option"

record playback_payload =
  payload_chunk_index :: int
  payload_position_secs :: real
  percent_listened :: real

text \<open>What the player sends out: toasts, the playback history, the persistence call and
  the requests to the media element.\<close>

datatype effect =
    Toast string string
  | AddToHistory int real
  | SavePlayback int playback_payload
  | MediaLoad int int
  | MediaPlay

record player =
  audio :: "audio_element option"
  currentEpisode :: "episode option"
  currentChunkIndex :: int
  chunks :: "chunk list"
  totalEpisodeDuration :: real
  currentEpisodeTime :: real
  effects :: "effect list"

subsection \<open>JavaScript helpers\<close>

text \<open>\<open>x || 0\<close> on a number that may be missing.\<close>

definition or0 :: "real option \<Rightarrow> real" where
  "or0 x = (case x of None \<Rightarrow> 0 | Some v \<Rightarrow> v)"

text \<open>Truthiness of a number that may be missing: neither missing nor zero.\<close>

definition truthy :: "real option \<Rightarrow> bool" where
  "truthy x = (case x of None \<Rightarrow> False | Some v \<Rightarrow> v \<noteq> 0)"

text \<open>\<open>Array.prototype.findIndex\<close>: the first position that satisfies the test, or -1.\<close>

fun findIndex :: "('a \<Rightarrow> bool) \<Rightarrow> 'a list \<Rightarrow> int" where
  "findIndex p [] = -1"
| "findIndex p (x # xs) =
     (if p x then 0 else (let i = findIndex p xs in if i < 0 then -1 else i + 1))"

text \<open>An uncaught exception ends the running handler; what the handler has changed up to
  that point stays. A handler returns \<open>Inr\<close> with the state it leaves, or \<open>Inl\<close> with the
  error and the state at the throw.\<close>

datatype js_error = TypeError

definition emit :: "effect \<Rightarrow> player \<Rightarrow> player" where
  "emit e s = s\<lparr>effects := effects s @ [e]\<rparr>"

text \<open>\<open>audio.play()\<close>: a request to the media element; without an element the call
  throws and nothing is requested. A rejected promise is swallowed by the callers.\<close>

definition play :: "player \<Rightarrow> player" where
  "play s = (case audio s of None \<Rightarrow> s | Some a \<Rightarrow> emit MediaPlay s)"

subsection \<open>Episode-level time\<close>

text \<open>\<open>calculateEpisodeTime(chunkIndex)\<close>: the loop adds the duration of every chunk whose
  \<open>chunk_index\<close> is smaller than the argument.\<close>

fun calculateEpisodeTime_loop :: "real \<Rightarrow> int \<Rightarrow> chunk list \<Rightarrow> real" where
  "calculateEpisodeTime_loop time chunkIndex [] = time"
| "calculateEpisodeTime_loop time chunkIndex (c # cs) =
     calculateEpisodeTime_loop
       (if chunk_index c < chunkIndex then time + or0 (duration_secs c) else time)
       chunkIndex cs"

definition calculateEpisodeTime :: "chunk list \<Rightarrow> int \<Rightarrow> real" where
  "calculateEpisodeTime cs chunkIndex = calculateEpisodeTime_loop 0 chunkIndex cs"

text \<open>\<open>chunks.reduce((sum, c) => sum + (c.duration_secs || 0), 0)\<close>.\<close>

definition sumDurations :: "chunk list \<Rightarrow> real" where
  "sumDurations cs = foldl (\<lambda>sum c. sum + or0 (duration_secs c)) 0 cs"

text \<open>\<open>chunks.find(c => c.chunk_index === k)?.duration_secs || 0\<close>.\<close>

definition chunkDuration :: "chunk list \<Rightarrow> int \<Rightarrow> real" where
  "chunkDuration cs k =
     or0 (case find (\<lambda>c. chunk_index c = k) cs of None \<Rightarrow> None | Some c \<Rightarrow> duration_secs c)"

subsection \<open>Loading\<close>

text \<open>
  \<open>loadChunk(chunkIndex)\<close> has no \<open>await\<close>: its body runs at once. It reads
  \<open>currentEpisode.id\<close> right after moving the cursor, which throws without an episode.
  Pointing the media element at a new source and calling \<open>load()\<close> puts its position
  back to 0 and its duration to \<open>NaN\<close> until the metadata arrives.
\<close>

definition loadChunk :: "int \<Rightarrow> player \<Rightarrow> player" where
  "loadChunk chunkIndex s =
     (let s1 = s\<lparr>currentChunkIndex := chunkIndex\<rparr> in
      case currentEpisode s1 of
        None \<Rightarrow> s1
      | Some ep \<Rightarrow>
          (case find (\<lambda>c. chunk_index c = chunkIndex) (chunks s1) of
             None \<Rightarrow> s1
           | Some c \<Rightarrow>
               emit (MediaLoad (episode_id ep) chunkIndex)
                 (s1\<lparr>audio := Some \<lparr> src = (episode_id ep, chunkIndex),
                                        currentTime = 0, duration = None \<rparr>\<rparr>)))"

text \<open>The browser reports the duration of the loaded media (\<open>loadedmetadata\<close>).\<close>

definition media_loadedmetadata :: "real \<Rightarrow> player \<Rightarrow> player" where
  "media_loadedmetadata d s =
     s\<lparr>audio := map_option (\<lambda>a. a\<lparr>duration := Some d\<rparr>) (audio s)\<rparr>"

definition set_currentTime :: "real \<Rightarrow> player \<Rightarrow> player" where
  "set_currentTime t s = s\<lparr>audio := map_option (\<lambda>a. a\<lparr>currentTime := t\<rparr>) (audio s)\<rparr>"

text \<open>\<open>(episode.chunks || []).filter(c => c.status === 'ready')\<close>.\<close>

definition rawChunks :: "episode \<Rightarrow> chunk list" where
  "rawChunks ep = (case episode_chunks ep of None \<Rightarrow> [] | Some cs \<Rightarrow> cs)"

definition readyChunks :: "episode \<Rightarrow> chunk list" where
  "readyChunks ep = filter (\<lambda>c. status c = ''ready'') (rawChunks ep)"

text \<open>The chunk asked for: the \<open>startChunk\<close> argument, else the persisted
  \<open>current_chunk_index\<close>, else 0.\<close>

definition requestedChunk :: "episode \<Rightarrow> int option \<Rightarrow> int" where
  "requestedChunk ep startChunk =
     (case startChunk of
        Some k \<Rightarrow> k
      | None \<Rightarrow> (case current_chunk_index ep of Some k \<Rightarrow> k | None \<Rightarrow> 0))"

text \<open>\<open>loadEpisode(episodeId, startChunk)\<close>, from the point where \<open>api.getEpisode\<close> has
  answered with \<open>ep\<close>.\<close>

definition loadEpisode :: "episode \<Rightarrow> int option \<Rightarrow> player \<Rightarrow> player" where
  "loadEpisode ep startChunk s =
     (let s1 = s\<lparr>currentEpisode := Some ep, chunks := readyChunks ep\<rparr>
      in case chunks s1 of
           [] \<Rightarrow> emit (Toast ''No ready chunks to play'' ''error'') s1
         | c0 # rest \<Rightarrow>
             let s2 = s1\<lparr>totalEpisodeDuration := sumDurations (chunks s1)\<rparr>;
                 s3 = s2\<lparr>currentChunkIndex := requestedChunk ep startChunk\<rparr>;
                 validIdx = findIndex (\<lambda>c. chunk_index c = currentChunkIndex s3) (chunks s3);
                 s4 = (if validIdx < 0 then s3\<lparr>currentChunkIndex := chunk_index c0\<rparr> else s3);
                 s5 = s4\<lparr>currentEpisodeTime :=
                           calculateEpisodeTime (chunks s4) (currentChunkIndex s4)\<rparr>;
                 s6 = (if startChunk = None \<and> truthy (position_secs ep)
                       then s5\<lparr>currentEpisodeTime :=
                                 (currentEpisodeTime s5
                                    - chunkDuration (chunks s5) (currentChunkIndex s5))
                                 + or0 (position_secs ep)\<rparr>
                       else s5);
                 s7 = play (loadChunk (currentChunkIndex s6) s6)
             in if startChunk = None \<and> truthy (position_secs ep)
                then set_currentTime (or0 (position_secs ep)) s7
                else s7)"

subsection \<open>Media element callbacks\<close>

definition onTimeUpdate :: "player \<Rightarrow> player" where
  "onTimeUpdate s =
     (case audio s of
        None \<Rightarrow> s
      | Some a \<Rightarrow>
          if \<not> truthy (duration a) then s
          else s\<lparr>currentEpisodeTime :=
                   calculateEpisodeTime (chunks s) (currentChunkIndex s) + currentTime a\<rparr>)"

subsection \<open>Playback position persistence\<close>

text \<open>The payload \<open>savePosition(forcePct)\<close> hands to \<open>api.savePlayback\<close>; nothing is sent
  when no episode is loaded.\<close>

definition savePosition_payload :: "real option \<Rightarrow> player \<Rightarrow> playback_payload option" where
  "savePosition_payload forcePct s =
     (case currentEpisode s of
        None \<Rightarrow> None
      | Some ep \<Rightarrow>
          let idx = findIndex (\<lambda>c. chunk_index c = currentChunkIndex s) (chunks s);
              totalChunks = length (chunks s);
              pct = (case forcePct of
                       Some p \<Rightarrow> p
                     | None \<Rightarrow>
                         let chunkPct =
                               (case audio s of
                                  None \<Rightarrow> 0
                                | Some a \<Rightarrow>
                                    (case duration a of
                                       None \<Rightarrow> 0
                                     | Some d \<Rightarrow> if d \<noteq> 0 then currentTime a / d else 0))
                         in if totalChunks > 0
                            then ((real_of_int idx + chunkPct) / real totalChunks) * 100
                            else 0)
          in Some \<lparr> payload_chunk_index = currentChunkIndex s,
                    payload_position_secs = (case audio s of None \<Rightarrow> 0 | Some a \<Rightarrow> currentTime a),
                    percent_listened = min 100 pct \<rparr>)"

definition savePosition :: "real option \<Rightarrow> player \<Rightarrow> player" where
  "savePosition forcePct s =
     (case currentEpisode s of
        None \<Rightarrow> s
      | Some ep \<Rightarrow>
          (case savePosition_payload forcePct s of
             None \<Rightarrow> s
           | Some p \<Rightarrow> emit (SavePlayback (episode_id ep) p) s))"

text \<open>
  \<open>addToHistory(episode)\<close> stores the entry in \<open>localStorage\<close> and then calls
  \<open>state.emit('history-updated', history)\<close>. The module \<open>state.js\<close> exports \<open>get\<close>, \<open>set\<close>,
  \<open>on\<close> and \<open>getAll\<close> only: \<open>state.emit\<close> is undefined and calling it throws a
  \<open>TypeError\<close>, after the entry has been stored.
\<close>

definition addToHistory :: "episode \<Rightarrow> real \<Rightarrow> player \<Rightarrow> (js_error \<times> player) + player" where
  "addToHistory ep pct s = Inl (TypeError, emit (AddToHistory (episode_id ep) pct) s)"

text \<open>\<open>onEnded\<close>: the history entry first (when an episode is loaded), then the advance to
  the next chunk or the completion of the episode.\<close>

definition onEnded :: "player \<Rightarrow> (js_error \<times> player) + player" where
  "onEnded s =
     (case (case currentEpisode s of None \<Rightarrow> Inr s | Some ep \<Rightarrow> addToHistory ep 100 s) of
        Inl thrown \<Rightarrow> Inl thrown
      | Inr s1 \<Rightarrow>
          (let idx = findIndex (\<lambda>c. chunk_index c = currentChunkIndex s1) (chunks s1)
           in Inr (if idx \<ge> 0 \<and> idx < int (length (chunks s1)) - 1
                   then play (loadChunk (chunk_index (chunks s1 ! nat (idx + 1))) s1)
                   else emit (Toast ''Episode complete!'' ''success'')
                          (savePosition (Some 100) s1))))"

subsection \<open>Controls\<close>

definition skip :: "real \<Rightarrow> player \<Rightarrow> player" where
  "skip secs s =
     (case audio s of
        None \<Rightarrow> s
      | Some a \<Rightarrow>
          s\<lparr>audio := Some (a\<lparr>currentTime :=
                 max 0 (min (or0 (duration a)) (currentTime a + secs))\<rparr>)\<rparr>)"

definition prevChunk :: "player \<Rightarrow> player" where
  "prevChunk s =
     (let idx = findIndex (\<lambda>c. chunk_index c = currentChunkIndex s) (chunks s)
      in if idx > 0
         then play
                (loadChunk (chunk_index (chunks s ! nat (idx - 1))) (savePosition None s))
         else s)"

definition nextChunk :: "player \<Rightarrow> player" where
  "nextChunk s =
     (let idx = findIndex (\<lambda>c. chunk_index c = currentChunkIndex s) (chunks s)
      in if idx \<ge> 0 \<and> idx < int (length (chunks s)) - 1
         then play
                (loadChunk (chunk_index (chunks s ! nat (idx + 1))) (savePosition None s))
         else s)"

subsection \<open>Episode-level scrubber\<close>

text \<open>The loop of the \<open>fs-scrubber\<close> handler: the first chunk at which the running sum of
  durations passes the target time; \<open>None\<close> when the loop ends without \<open>break\<close>.\<close>

fun scanChunks :: "real \<Rightarrow> real \<Rightarrow> chunk list \<Rightarrow> chunk option" where
  "scanChunks targetTime timeAccum [] = None"
| "scanChunks targetTime timeAccum (c # cs) =
     (let chunkDur = or0 (duration_secs c)
      in if timeAccum + chunkDur > targetTime then Some c
         else scanChunks targetTime (timeAccum + chunkDur) cs)"

text \<open>\<open>targetChunk\<close> starts as \<open>chunks[0]\<close> and keeps that value when the loop never breaks.\<close>

fun findTargetChunk :: "chunk list \<Rightarrow> real \<Rightarrow> chunk option" where
  "findTargetChunk [] targetTime = None"
| "findTargetChunk (c0 # rest) targetTime =
     Some (case scanChunks targetTime 0 (c0 # rest) of Some c \<Rightarrow> c | None \<Rightarrow> c0)"

text \<open>The handler itself, for the slider value \<open>pct\<close>. When the target chunk is another
  one, the offset is set after \<open>loadChunk\<close> has resolved, which it does not without an
  episode.\<close>

definition fs_scrubber_input :: "real \<Rightarrow> player \<Rightarrow> player" where
  "fs_scrubber_input pct s =
     (if totalEpisodeDuration s = 0 then s
      else case findTargetChunk (chunks s) ((pct / 100) * totalEpisodeDuration s) of
             None \<Rightarrow> s
           | Some targetChunk \<Rightarrow>
               let targetTime = (pct / 100) * totalEpisodeDuration s
               in if chunk_index targetChunk = currentChunkIndex s \<and> audio s \<noteq> None
                  then set_currentTime
                         (targetTime - calculateEpisodeTime (chunks s) (currentChunkIndex s)) s
                  else let s1 = loadChunk (chunk_index targetChunk) s
                       in if currentEpisode s = None then s1
                          else set_currentTime
                                 (targetTime
                                    - calculateEpisodeTime (chunks s1) (chunk_index targetChunk))
                                 s1)"

subsection \<open>Sample data\<close>

definition ready_chunk :: "int \<Rightarrow> real \<Rightarrow> chunk" where
  "ready_chunk i d = \<lparr> chunk_index = i, duration_secs = Some d, status = ''ready'' \<rparr>"

definition chunks_100_50_30 :: "chunk list" where
  "chunks_100_50_30 = [ready_chunk 0 100, ready_chunk 1 50, ready_chunk 2 30]"

definition sample_episode :: episode where
  "sample_episode = \<lparr> episode_id = 1, title = ''sample'',
     episode_chunks = Some chunks_100_50_30,
     current_chunk_index = None, position_secs = None \<rparr>"

definition idle_player :: player where
  "idle_player = \<lparr> audio = None, currentEpisode = None, currentChunkIndex = 0,
     chunks = [], totalEpisodeDuration = 0, currentEpisodeTime = 0, effects = [] \<rparr>"

definition sample_on_chunk :: "int \<Rightarrow> player" where
  "sample_on_chunk k = loadEpisode sample_episode (Some k) idle_player"

text \<open>The sample episode on chunk 0, its media loaded (100 seconds) and played up to 0:95.\<close>

definition sample_at_95 :: player where
  "sample_at_95 = set_currentTime 95 (media_loadedmetadata 100 (sample_on_chunk 0))"

text \<open>The sample episode resumed from a persisted position at 0:10 of chunk 0, and from
  a persisted chunk index that is not in the episode.\<close>

definition resumed_at_10 :: player where
  "resumed_at_10 =
     loadEpisode (sample_episode\<lparr>current_chunk_index := Some 0, position_secs := Some 10\<rparr>)
       None idle_player"

definition resumed_on_missing_chunk :: player where
  "resumed_on_missing_chunk =
     loadEpisode (sample_episode\<lparr>current_chunk_index := Some 7\<rparr>) None idle_player"

text \<open>An episode whose chunks arrive out of index order, and one with nothing ready.\<close>

definition unsorted_episode :: episode where
  "unsorted_episode = \<lparr> episode_id = 2, title = ''unsorted'',
     episode_chunks = Some [ready_chunk 1 50, ready_chunk 0 100],
     current_chunk_index = None, position_secs = None \<rparr>"

definition pending_episode :: episode where
  "pending_episode = \<lparr> episode_id = 3, title = ''pending'',
     episode_chunks = Some [\<lparr> chunk_index = 0, duration_secs = None, status = ''pending'' \<rparr>],
     current_chunk_index = None, position_secs = None \<rparr>"

subsection \<open>Playback to the end of a chunk\<close>

text \<open>The media element has loaded its source, of duration \<open>d\<close>, and played it to the end,
  where it fires \<open>ended\<close>.\<close>

definition media_played :: "real \<Rightarrow> player \<Rightarrow> player" where
  "media_played d s = set_currentTime d (media_loadedmetadata d s)"

text \<open>
  A media element holds no position outside its media: a position requested beyond the
  end becomes the end. \<open>media_ready\<close> is the arrival of the metadata of a source whose
  position was requested before: the element takes the duration and goes to the requested
  position, limited in that way.
\<close>

definition media_limit_position :: "player \<Rightarrow> player" where
  "media_limit_position s =
     s\<lparr>audio := map_option
                   (\<lambda>a. a\<lparr>currentTime := max 0 (min (or0 (duration a)) (currentTime a))\<rparr>)
                   (audio s)\<rparr>"

definition media_ready :: "real \<Rightarrow> player \<Rightarrow> player" where
  "media_ready d s = media_limit_position (media_loadedmetadata d s)"

subsection \<open>Derived quantities used in the statements\<close>

definition durations :: "chunk list \<Rightarrow> real list" where
  "durations cs = map (\<lambda>c. or0 (duration_secs c)) cs"

text \<open>The episode-level time as \<open>onTimeUpdate\<close> computes it: the start of the cursor's chunk
  plus the position of the media element.\<close>

definition episodeTimeNow :: "player \<Rightarrow> real" where
  "episodeTimeNow s =
     calculateEpisodeTime (chunks s) (currentChunkIndex s)
       + (case audio s of None \<Rightarrow> 0 | Some a \<Rightarrow> currentTime a)"

text \<open>The notices shown to the user.\<close>

fun is_toast :: "effect \<Rightarrow> bool" where
  "is_toast (Toast msg kind) = True"
| "is_toast e = False"

definition toasts :: "effect list \<Rightarrow> effect list" where
  "toasts es = filter is_toast es"

section \<open>Auxiliary facts\<close>

lemmas sample_defs = sample_on_chunk_def sample_at_95_def sample_episode_def idle_player_def
  chunks_100_50_30_def ready_chunk_def

lemmas player_defs = loadEpisode_def rawChunks_def readyChunks_def requestedChunk_def
  loadChunk_def emit_def play_def set_currentTime_def
  media_loadedmetadata_def onTimeUpdate_def fs_scrubber_input_def calculateEpisodeTime_def
  sumDurations_def chunkDuration_def or0_def truthy_def Let_def

lemma foldl_durations:
  "foldl (\<lambda>sum c. sum + or0 (duration_secs c)) a cs = a + sum_list (durations cs)"
  by (induction cs arbitrary: a) (simp_all add: durations_def)

lemma sumDurations_sum_list: "sumDurations cs = sum_list (durations cs)"
  by (simp add: sumDurations_def foldl_durations)

lemma calculateEpisodeTime_loop_sum:
  "calculateEpisodeTime_loop a k cs =
     a + sum_list (durations (filter (\<lambda>c. chunk_index c < k) cs))"
  by (induction cs arbitrary: a) (simp_all add: durations_def)

lemma calculateEpisodeTime_sum:
  "calculateEpisodeTime cs k = sum_list (durations (filter (\<lambda>c. chunk_index c < k) cs))"
  by (simp add: calculateEpisodeTime_def calculateEpisodeTime_loop_sum)

lemma findIndex_ge: "- 1 \<le> findIndex p xs"
  by (induction xs) (simp_all add: Let_def)

lemma findIndex_neg_iff: "findIndex p xs < 0 \<longleftrightarrow> (\<forall>x \<in> set xs. \<not> p x)"
proof (induction xs)
  case Nil
  show ?case by simp
next
  case (Cons x xs)
  have "- 1 \<le> findIndex p xs" by (rule findIndex_ge)
  with Cons show ?case by (auto simp: Let_def)
qed

lemma scanChunks_mem: "scanChunks t acc cs = Some c \<Longrightarrow> c \<in> set cs"
  by (induction cs arbitrary: acc) (auto simp: Let_def split: if_splits)

lemma findTargetChunk_mem: "findTargetChunk cs t = Some c \<Longrightarrow> c \<in> set cs"
  by (cases cs) (auto simp del: scanChunks.simps split: option.splits dest: scanChunks_mem)

lemma findTargetChunk_Some: "cs \<noteq> [] \<Longrightarrow> \<exists>c. findTargetChunk cs t = Some c"
  by (cases cs) simp_all

lemma find_chunk_index: "c \<in> set cs \<Longrightarrow> \<exists>c'. find (\<lambda>x. chunk_index x = chunk_index c) cs = Some c'"
  by (cases "find (\<lambda>x. chunk_index x = chunk_index c) cs") (auto simp: find_None_iff)

lemma loadChunk_member:
  assumes "currentEpisode s = Some ep" and "c \<in> set (chunks s)"
  shows "loadChunk (chunk_index c) s =
     s\<lparr>currentChunkIndex := chunk_index c,
        audio := Some \<lparr> src = (episode_id ep, chunk_index c), currentTime = 0, duration = None \<rparr>,
        effects := effects s @ [MediaLoad (episode_id ep) (chunk_index c)]\<rparr>"
proof -
  obtain c' where "find (\<lambda>x. chunk_index x = chunk_index c) (chunks s) = Some c'"
    using find_chunk_index [OF assms(2)] by blast
  with assms(1) show ?thesis
    by (simp add: loadChunk_def emit_def)
qed


lemma durations_nonneg:
  "\<forall>x \<in> set xs. 0 \<le> or0 (duration_secs x) \<Longrightarrow> 0 \<le> sum_list (durations xs)"
  by (induction xs) (simp_all add: durations_def)

lemma scanChunks_positional:
  assumes "\<forall>x \<in> set xs. 0 \<le> or0 (duration_secs x)"
    and "acc + sum_list (durations xs) \<le> t"
    and "t < acc + sum_list (durations xs) + or0 (duration_secs c)"
  shows "scanChunks t acc (xs @ c # ys) = Some c"
  using assms
proof (induction xs arbitrary: acc)
  case Nil
  then show ?case by (simp add: durations_def)
next
  case (Cons x xs)
  have nn: "0 \<le> sum_list (durations xs)"
    using Cons.prems(1) by (intro durations_nonneg) simp
  have split: "sum_list (durations (x # xs)) = or0 (duration_secs x) + sum_list (durations xs)"
    by (simp add: durations_def)
  have no_break: "\<not> t < acc + or0 (duration_secs x)"
    using Cons.prems(2) nn split by linarith
  have "scanChunks t (acc + or0 (duration_secs x)) (xs @ c # ys) = Some c"
  proof (rule Cons.IH)
    show "\<forall>x \<in> set xs. 0 \<le> or0 (duration_secs x)" using Cons.prems(1) by simp
    show "acc + or0 (duration_secs x) + sum_list (durations xs) \<le> t"
      using Cons.prems(2) split by linarith
    show "t < acc + or0 (duration_secs x) + sum_list (durations xs) + or0 (duration_secs c)"
      using Cons.prems(3) split by linarith
  qed
  with no_break show ?case by (simp add: Let_def)
qed

lemma filter_before_ascending:
  assumes "sorted_wrt (<) (map chunk_index (xs @ c # ys))"
  shows "filter (\<lambda>x. chunk_index x < chunk_index c) (xs @ c # ys) = xs"
proof -
  from assms have before: "\<forall>x \<in> set xs. chunk_index x < chunk_index c"
    and after: "\<forall>y \<in> set ys. chunk_index c < chunk_index y"
    by (auto simp: sorted_wrt_append)
  from before have "filter (\<lambda>x. chunk_index x < chunk_index c) xs = xs"
    by (simp add: filter_id_conv)
  moreover from after have "filter (\<lambda>x. chunk_index x < chunk_index c) ys = []"
    by (auto simp: filter_empty_conv)
  ultimately show ?thesis by simp
qed

lemma findTargetChunk_in_range:
  assumes asc: "sorted_wrt (<) (map chunk_index cs)"
    and nonneg: "\<forall>x \<in> set cs. 0 \<le> or0 (duration_secs x)"
    and mem: "c \<in> set cs"
    and lo: "calculateEpisodeTime cs (chunk_index c) \<le> t"
    and hi: "t < calculateEpisodeTime cs (chunk_index c) + or0 (duration_secs c)"
  shows "findTargetChunk cs t = Some c"
proof -
  from mem obtain xs ys where cs: "cs = xs @ c # ys"
    by (auto simp: in_set_conv_decomp)
  have start: "calculateEpisodeTime cs (chunk_index c) = sum_list (durations xs)"
    using asc unfolding cs by (simp only: calculateEpisodeTime_sum filter_before_ascending)
  have "scanChunks t 0 (xs @ c # ys) = Some c"
  proof (rule scanChunks_positional)
    show "\<forall>x \<in> set xs. 0 \<le> or0 (duration_secs x)" using nonneg cs by simp
    show "0 + sum_list (durations xs) \<le> t" using lo start by simp
    show "t < 0 + sum_list (durations xs) + or0 (duration_secs c)" using hi start by simp
  qed
  then have "findTargetChunk (xs @ c # ys) t = Some c"
    by (cases xs) (simp_all del: scanChunks.simps)
  then show ?thesis by (simp only: cs)
qed

lemma loadChunk_keeps:
  "chunks (loadChunk k s) = chunks s \<and> currentEpisode (loadChunk k s) = currentEpisode s
   \<and> currentChunkIndex (loadChunk k s) = k
   \<and> totalEpisodeDuration (loadChunk k s) = totalEpisodeDuration s
   \<and> currentEpisodeTime (loadChunk k s) = currentEpisodeTime s"
  by (simp add: loadChunk_def emit_def Let_def split: option.splits)

lemma scanChunks_total:
  "acc \<le> t \<Longrightarrow> t < acc + sum_list (durations cs) \<Longrightarrow> \<exists>c. scanChunks t acc cs = Some c"
proof (induction cs arbitrary: acc)
  case Nil
  then show ?case by (simp add: durations_def)
next
  case (Cons x cs)
  show ?case
  proof (cases "t < acc + or0 (duration_secs x)")
    case True
    then show ?thesis by (simp add: Let_def)
  next
    case False
    with Cons.prems have "\<exists>c. scanChunks t (acc + or0 (duration_secs x)) cs = Some c"
      by (intro Cons.IH) (simp_all add: durations_def add.assoc)
    with False show ?thesis by (simp add: Let_def)
  qed
qed

lemma scanChunks_bounds:
  assumes "scanChunks t acc cs = Some c" and "acc \<le> t"
  shows "\<exists>xs ys. cs = xs @ c # ys \<and> acc + sum_list (durations xs) \<le> t
           \<and> t < acc + sum_list (durations xs) + or0 (duration_secs c)"
  using assms
proof (induction cs arbitrary: acc)
  case Nil
  then show ?case by simp
next
  case (Cons x cs)
  show ?case
  proof (cases "t < acc + or0 (duration_secs x)")
    case True
    with Cons.prems have "c = x" by (simp add: Let_def)
    with True Cons.prems(2) have "x # cs = [] @ c # cs \<and> acc + sum_list (durations []) \<le> t
        \<and> t < acc + sum_list (durations []) + or0 (duration_secs c)"
      by (simp add: durations_def)
    then show ?thesis by blast
  next
    case False
    with Cons.prems have "scanChunks t (acc + or0 (duration_secs x)) cs = Some c"
      by (simp add: Let_def)
    moreover from False have "acc + or0 (duration_secs x) \<le> t" by simp
    ultimately obtain xs ys where r: "cs = xs @ c # ys"
      "acc + or0 (duration_secs x) + sum_list (durations xs) \<le> t"
      "t < acc + or0 (duration_secs x) + sum_list (durations xs) + or0 (duration_secs c)"
      using Cons.IH by blast
    then have "x # cs = (x # xs) @ c # ys \<and> acc + sum_list (durations (x # xs)) \<le> t
        \<and> t < acc + sum_list (durations (x # xs)) + or0 (duration_secs c)"
      by (simp add: durations_def add.assoc)
    then show ?thesis by blast
  qed
qed

text \<open>Inside the episode, on chunks in ascending index order, the lookup returns a chunk
  whose interval holds the target time.\<close>

lemma findTargetChunk_inside:
  assumes asc: "sorted_wrt (<) (map chunk_index cs)"
    and lo: "0 \<le> t" and hi: "t < sumDurations cs"
  shows "\<exists>c \<in> set cs. findTargetChunk cs t = Some c
           \<and> calculateEpisodeTime cs (chunk_index c) \<le> t
           \<and> t < calculateEpisodeTime cs (chunk_index c) + or0 (duration_secs c)"
proof -
  from hi obtain c where c: "scanChunks t 0 cs = Some c"
    using scanChunks_total [of 0 t cs] lo by (auto simp: sumDurations_sum_list)
  from scanChunks_bounds [OF c lo] obtain xs ys where r: "cs = xs @ c # ys"
    "sum_list (durations xs) \<le> t" "t < sum_list (durations xs) + or0 (duration_secs c)"
    by auto
  have start: "calculateEpisodeTime cs (chunk_index c) = sum_list (durations xs)"
    using asc unfolding r(1) by (simp only: calculateEpisodeTime_sum filter_before_ascending)
  have "findTargetChunk cs t = Some c"
    using c by (cases cs) simp_all
  with r start show ?thesis by simp
qed

text \<open>The same for the whole handler: seeking to a time inside the episode and reading the
  episode time, once the media of the resolved chunk is ready, gives that time back.\<close>

lemma seek_then_read_inside:
  assumes ep: "currentEpisode s = Some ep"
    and asc: "sorted_wrt (<) (map chunk_index (chunks s))"
    and tot: "totalEpisodeDuration s = sumDurations (chunks s)"
    and lo: "0 \<le> t" and hi: "t < totalEpisodeDuration s"
  shows "\<exists>c \<in> set (chunks s).
           currentChunkIndex (fs_scrubber_input (100 * t / totalEpisodeDuration s) s)
             = chunk_index c
         \<and> calculateEpisodeTime (chunks s) (chunk_index c) \<le> t
         \<and> t < calculateEpisodeTime (chunks s) (chunk_index c) + or0 (duration_secs c)
         \<and> currentEpisodeTime
             (onTimeUpdate (media_ready (or0 (duration_secs c))
                (fs_scrubber_input (100 * t / totalEpisodeDuration s) s))) = t"
proof -
  let ?pct = "100 * t / totalEpisodeDuration s"
  have nz: "totalEpisodeDuration s \<noteq> 0" using lo hi by simp
  then have target: "?pct / 100 * totalEpisodeDuration s = t" by simp
  from findTargetChunk_inside [OF asc lo] hi tot
  obtain c where c: "c \<in> set (chunks s)" "findTargetChunk (chunks s) t = Some c"
    "calculateEpisodeTime (chunks s) (chunk_index c) \<le> t"
    "t < calculateEpisodeTime (chunks s) (chunk_index c) + or0 (duration_secs c)"
    by auto
  let ?start = "calculateEpisodeTime (chunks s) (chunk_index c)"
  from c(3,4) have d: "or0 (duration_secs c) \<noteq> 0" by auto
  have off: "max 0 (min (or0 (duration_secs c)) (t - ?start)) = t - ?start"
    using c(3,4) by (simp add: max_def min_def)
  have "currentChunkIndex (fs_scrubber_input ?pct s) = chunk_index c
      \<and> currentEpisodeTime
           (onTimeUpdate (media_ready (or0 (duration_secs c)) (fs_scrubber_input ?pct s))) = t"
  proof (cases "chunk_index c = currentChunkIndex s \<and> audio s \<noteq> None")
    case True
    then obtain a where a: "audio s = Some a" by blast
    have "fs_scrubber_input ?pct s = set_currentTime (t - ?start) s"
      using True nz c(2) unfolding fs_scrubber_input_def target by (simp add: Let_def)
    with True a d off show ?thesis
      by (simp add: set_currentTime_def media_ready_def media_loadedmetadata_def
          media_limit_position_def onTimeUpdate_def truthy_def or0_def)
  next
    case False
    have "fs_scrubber_input ?pct s = set_currentTime (t - ?start) (loadChunk (chunk_index c) s)"
      using False nz c(2) ep unfolding fs_scrubber_input_def target
      by (auto simp: Let_def loadChunk_keeps)
    with d off show ?thesis
      by (simp add: loadChunk_member [OF ep c(1)] set_currentTime_def media_ready_def
          media_loadedmetadata_def media_limit_position_def onTimeUpdate_def truthy_def or0_def)
  qed
  with c show ?thesis by blast
qed

lemma skip_episodeTime:
  assumes "audio s = Some a"
  shows "currentChunkIndex (skip secs s) = currentChunkIndex s
       \<and> chunks (skip secs s) = chunks s
       \<and> episodeTimeNow (skip secs s)
           = max (calculateEpisodeTime (chunks s) (currentChunkIndex s))
               (min (calculateEpisodeTime (chunks s) (currentChunkIndex s) + or0 (duration a))
                    (episodeTimeNow s + secs))"
  using assms by (auto simp: skip_def episodeTimeNow_def max_def min_def)

lemma skip_eq_seek_inside:
  assumes a: "audio s = Some a"
    and asc: "sorted_wrt (<) (map chunk_index (chunks s))"
    and nonneg: "\<forall>x \<in> set (chunks s). 0 \<le> or0 (duration_secs x)"
    and tot: "totalEpisodeDuration s \<noteq> 0"
    and cur: "c \<in> set (chunks s)" "chunk_index c = currentChunkIndex s"
    and dur: "duration a = duration_secs c"
    and lo: "0 \<le> currentTime a + secs"
    and hi: "currentTime a + secs < or0 (duration_secs c)"
  shows "fs_scrubber_input (100 * (episodeTimeNow s + secs) / totalEpisodeDuration s) s
           = skip secs s"
proof -
  let ?start = "calculateEpisodeTime (chunks s) (currentChunkIndex s)"
  let ?t = "episodeTimeNow s + secs"
  have target: "(100 * ?t / totalEpisodeDuration s) / 100 * totalEpisodeDuration s = ?t"
    using tot by simp
  have t: "?t = ?start + (currentTime a + secs)"
    using a by (simp add: episodeTimeNow_def)
  have "findTargetChunk (chunks s) ?t = Some c"
  proof (rule findTargetChunk_in_range [OF asc nonneg cur(1)])
    show "calculateEpisodeTime (chunks s) (chunk_index c) \<le> ?t"
      using lo t cur(2) by simp
    show "?t < calculateEpisodeTime (chunks s) (chunk_index c) + or0 (duration_secs c)"
      using hi t cur(2) by simp
  qed
  then have seek: "fs_scrubber_input (100 * ?t / totalEpisodeDuration s) s
      = set_currentTime (?t - ?start) s"
    using tot a cur(2) unfolding fs_scrubber_input_def target by (simp add: Let_def)
  have offset: "?t - ?start = currentTime a + secs"
    using t by simp
  have "skip secs s = set_currentTime (currentTime a + secs) s"
    using a lo hi dur by (simp add: skip_def set_currentTime_def)
  then show ?thesis by (simp only: seek offset)
qed


lemma play_keeps:
  "chunks (play s) = chunks s \<and> currentEpisode (play s) = currentEpisode s
   \<and> currentChunkIndex (play s) = currentChunkIndex s \<and> audio (play s) = audio s
   \<and> totalEpisodeDuration (play s) = totalEpisodeDuration s
   \<and> currentEpisodeTime (play s) = currentEpisodeTime s"
  by (simp add: play_def emit_def split: option.splits)

lemma savePosition_keeps:
  "chunks (savePosition f s) = chunks s \<and> currentEpisode (savePosition f s) = currentEpisode s
   \<and> currentChunkIndex (savePosition f s) = currentChunkIndex s
   \<and> audio (savePosition f s) = audio s"
  by (simp add: savePosition_def emit_def split: option.splits)

lemma media_played_keeps:
  "chunks (media_played d s) = chunks s \<and> currentEpisode (media_played d s) = currentEpisode s
   \<and> currentChunkIndex (media_played d s) = currentChunkIndex s
   \<and> effects (media_played d s) = effects s"
  by (simp add: media_played_def set_currentTime_def media_loadedmetadata_def)

lemma onEnded_throws:
  assumes "currentEpisode s = Some ep"
  shows "onEnded s = Inl (TypeError, emit (AddToHistory (episode_id ep) 100) s)"
  using assms by (simp add: onEnded_def addToHistory_def)

lemma nextChunk_advance:
  assumes "findIndex (\<lambda>c. chunk_index c = currentChunkIndex s) (chunks s) = i"
    and "0 \<le> i" and "i < int (length (chunks s)) - 1"
  shows "chunks (nextChunk s) = chunks s \<and> currentEpisode (nextChunk s) = currentEpisode s
       \<and> currentChunkIndex (nextChunk s) = chunk_index (chunks s ! nat (i + 1))"
  using assms
  by (simp add: nextChunk_def Let_def emit_def loadChunk_keeps savePosition_keeps play_keeps)

lemma loadEpisode_empty:
  assumes "readyChunks ep = []"
  shows "loadEpisode ep startChunk s =
     s\<lparr>currentEpisode := Some ep, chunks := [],
        effects := effects s @ [Toast ''No ready chunks to play'' ''error'']\<rparr>"
  using assms by (simp add: loadEpisode_def emit_def)

lemma loadEpisode_chunks: "chunks (loadEpisode ep startChunk s) = readyChunks ep"
proof (cases "readyChunks ep")
  case Nil
  then show ?thesis by (simp add: loadEpisode_empty)
next
  case (Cons c0 rest)
  then show ?thesis
    by (simp add: loadEpisode_def emit_def Let_def set_currentTime_def loadChunk_keeps
        play_keeps)
qed

lemma find_index_present:
  assumes "k \<in> chunk_index ` set cs"
  shows "\<exists>c. find (\<lambda>x. chunk_index x = k) cs = Some c"
proof (cases "find (\<lambda>x. chunk_index x = k) cs")
  case None
  then have "\<forall>x \<in> set cs. chunk_index x \<noteq> k" by (simp add: find_None_iff)
  with assms show ?thesis by force
next
  case (Some c)
  then show ?thesis by blast
qed

lemma loadEpisode_nonempty:
  assumes "readyChunks ep = c0 # rest"
  shows "loadEpisode ep startChunk s =
     (let k = (if requestedChunk ep startChunk \<in> chunk_index ` set (c0 # rest)
               then requestedChunk ep startChunk else chunk_index c0);
          resume = (startChunk = None \<and> truthy (position_secs ep))
      in s\<lparr>currentEpisode := Some ep, chunks := c0 # rest,
            totalEpisodeDuration := sumDurations (c0 # rest),
            currentChunkIndex := k,
            currentEpisodeTime :=
              (if resume
               then calculateEpisodeTime (c0 # rest) k - chunkDuration (c0 # rest) k
                      + or0 (position_secs ep)
               else calculateEpisodeTime (c0 # rest) k),
            audio := Some \<lparr> src = (episode_id ep, k),
                             currentTime = (if resume then or0 (position_secs ep) else 0),
                             duration = None \<rparr>,
            effects := effects s @ [MediaLoad (episode_id ep) k, MediaPlay]\<rparr>)"
proof -
  let ?req = "requestedChunk ep startChunk"
  let ?k = "if ?req \<in> chunk_index ` set (c0 # rest) then ?req else chunk_index c0"
  have valid: "findIndex (\<lambda>c. chunk_index c = ?req) (c0 # rest) < 0
                 \<longleftrightarrow> ?req \<notin> chunk_index ` set (c0 # rest)"
    unfolding findIndex_neg_iff by force
  have "?k \<in> chunk_index ` set (c0 # rest)" by simp
  then obtain c where c: "find (\<lambda>x. chunk_index x = ?k) (c0 # rest) = Some c"
    using find_index_present by blast
  show ?thesis
  proof (cases "?req \<in> chunk_index ` set (c0 # rest)")
    case True
    with valid have v: "\<not> findIndex (\<lambda>c. chunk_index c = ?req) (c0 # rest) < 0" by simp
    from True c have c': "find (\<lambda>x. chunk_index x = ?req) (c0 # rest) = Some c" by simp
    from assms True v c' show ?thesis
      unfolding loadEpisode_def
      by (cases startChunk;
          simp add: Let_def loadChunk_def emit_def play_def set_currentTime_def
            del: findIndex.simps find.simps)
  next
    case False
    with valid have v: "findIndex (\<lambda>c. chunk_index c = ?req) (c0 # rest) < 0" by simp
    from assms False v show ?thesis
      unfolding loadEpisode_def
      by (cases startChunk;
          simp add: Let_def loadChunk_def emit_def play_def set_currentTime_def
            del: findIndex.simps)
  qed
qed


section \<open>Chunk lookup of the episode-level scrubber\<close>

text \<open>
  What the lookup does inside the episode: with chunk indices in ascending order and no
  negative duration, a target time in the interval of a chunk, closed at its start and
  open at its end, resolves to that chunk. A time on a boundary therefore belongs to the
  later chunk.
\<close>

lemma findTargetChunk_boundary_later:
  assumes "sorted_wrt (<) (map chunk_index cs)"
    and "\<forall>x \<in> set cs. 0 \<le> or0 (duration_secs x)"
    and "c \<in> set cs"
    and "0 < or0 (duration_secs c)"
  shows "findTargetChunk cs (calculateEpisodeTime cs (chunk_index c)) = Some c"
  using assms by (intro findTargetChunk_in_range) simp_all

text \<open>
  C1. The lookup is claimed to return the chunk whose interval contains the target time,
  the later chunk at a boundary, and the last chunk (offset clamped to its duration) once
  the target reaches the total duration. With the scrubber at 100 percent on the episode
  of 100, 50 and 30 seconds the target time is 180, the loop ends without a match, and the
  handler stays with the first chunk: the cursor moves from chunk 2 to chunk 0 and the
  offset is set to 180.
\<close>

theorem scrubber_at_total_resolves_first_chunk:
  "map_option chunk_index (findTargetChunk chunks_100_50_30 ((100 / 100) * 180)) = Some 0
   \<and> currentChunkIndex (sample_on_chunk 2) = 2
   \<and> currentChunkIndex (fs_scrubber_input 100 (sample_on_chunk 2)) = 0
   \<and> map_option currentTime (audio (fs_scrubber_input 100 (sample_on_chunk 2))) = Some 180"
  by (simp add: sample_defs player_defs)

section \<open>Seek, then read the episode time\<close>

text \<open>
  C2. Seeking to a time and reading the current episode time, the start of the cursor's
  chunk plus the offset inside that chunk, is claimed to give the time back, limited to
  the total duration. It does for every time inside the episode
  (\<open>seek_then_read_inside\<close>). With the scrubber at 100 percent on the episode of 100, 50
  and 30 seconds the target time is the total, 180, which is the end of chunk 2 at offset
  30 (start 150). The handler instead leaves the cursor on chunk 0, whose duration is 100,
  and requests the offset 180 there, which is no position of that chunk: the start of the
  cursor's chunk plus the end of that chunk is 100.
\<close>

theorem seek_to_total_leaves_episode_position:
  "(100 / 100) * totalEpisodeDuration (sample_on_chunk 2) = 180
   \<and> max 0 (min (totalEpisodeDuration (sample_on_chunk 2)) 180) = 180
   \<and> currentChunkIndex (fs_scrubber_input 100 (sample_on_chunk 2)) = 0
   \<and> map_option currentTime (audio (fs_scrubber_input 100 (sample_on_chunk 2))) = Some 180
   \<and> chunkDuration (chunks (fs_scrubber_input 100 (sample_on_chunk 2))) 0 = 100
   \<and> calculateEpisodeTime (chunks (fs_scrubber_input 100 (sample_on_chunk 2))) 0
       + chunkDuration (chunks (fs_scrubber_input 100 (sample_on_chunk 2))) 0 = 100
   \<and> calculateEpisodeTime (chunks (fs_scrubber_input 100 (sample_on_chunk 2))) 2 + 30 = 180"
  by (simp add: sample_defs player_defs)

text \<open>What is read once the media of chunk 0 is ready: the element is at its end, 100, and
  the episode time is 100, 80 seconds before the target.\<close>

lemma seek_to_total_read_back:
  "currentEpisodeTime
     (onTimeUpdate (media_ready 100 (fs_scrubber_input 100 (sample_on_chunk 2)))) = 100"
  by (simp add: sample_defs player_defs media_ready_def media_limit_position_def)

section \<open>The scenario of 100, 50 and 30 seconds\<close>

text \<open>
  C3. With three ready chunks of indices 0, 1, 2 and durations 100, 50, 30 the chunk
  starts are 0, 100 and 150, and a seek to 120 (the slider at 100 * 120 / 180) resolves
  to chunk 1 and sets the offset to 20, from any cursor.
\<close>

theorem seek_120_resolves_chunk_1:
  assumes "chunks s = chunks_100_50_30"
    and "totalEpisodeDuration s = 180"
    and "currentEpisode s = Some ep"
  shows "calculateEpisodeTime (chunks s) 0 = 0
       \<and> calculateEpisodeTime (chunks s) 1 = 100
       \<and> calculateEpisodeTime (chunks s) 2 = 150
       \<and> findTargetChunk (chunks s) 120 = Some (ready_chunk 1 50)
       \<and> currentChunkIndex (fs_scrubber_input (100 * 120 / 180) s) = 1
       \<and> map_option currentTime (audio (fs_scrubber_input (100 * 120 / 180) s)) = Some 20"
proof (cases "currentChunkIndex s = 1 \<and> audio s \<noteq> None")
  case True
  with assms show ?thesis
    by (auto simp: fs_scrubber_input_def set_currentTime_def calculateEpisodeTime_def
        chunks_100_50_30_def ready_chunk_def or0_def)
next
  case False
  with assms show ?thesis
    by (auto simp: fs_scrubber_input_def set_currentTime_def calculateEpisodeTime_def
        loadChunk_def emit_def chunks_100_50_30_def ready_chunk_def or0_def)
qed

theorem seek_120_resolves_chunk_1_witness:
  "currentChunkIndex (fs_scrubber_input (100 * 120 / 180) (sample_on_chunk 0)) = 1
   \<and> map_option currentTime (audio (fs_scrubber_input (100 * 120 / 180) (sample_on_chunk 0)))
       = Some 20"
proof -
  have h1: "chunks (sample_on_chunk 0) = chunks_100_50_30"
    by (simp add: sample_defs player_defs)
  have h2: "totalEpisodeDuration (sample_on_chunk 0) = 180"
    by (simp add: sample_defs player_defs)
  have h3: "currentEpisode (sample_on_chunk 0) = Some sample_episode"
    by (simp add: sample_defs player_defs)
  from seek_120_resolves_chunk_1 [OF h1 h2 h3] show ?thesis by simp
qed

section \<open>Relative skip\<close>

text \<open>
  C4, as stated: a skip is an episode-level seek to the current episode time plus the
  delta and may cross a chunk boundary. On the sample episode at 0:95 of chunk 0, a skip
  of 10 seconds stops at the end of chunk 0 (offset 100), where the seek to 105 moves to
  chunk 1 at offset 5.
\<close>

theorem skip_does_not_cross_chunk:
  "skip 10 sample_at_95
     \<noteq> fs_scrubber_input (100 * (95 + 10) / totalEpisodeDuration sample_at_95) sample_at_95
   \<and> episodeTimeNow sample_at_95 = 95
   \<and> currentChunkIndex (skip 10 sample_at_95) = 0
   \<and> map_option currentTime (audio (skip 10 sample_at_95)) = Some 100
   \<and> currentChunkIndex
        (fs_scrubber_input (100 * (95 + 10) / totalEpisodeDuration sample_at_95) sample_at_95)
       = 1
   \<and> map_option currentTime
        (audio (fs_scrubber_input (100 * (95 + 10) / totalEpisodeDuration sample_at_95)
                  sample_at_95))
       = Some 5"
  by (simp add: sample_defs player_defs skip_def episodeTimeNow_def)

text \<open>
  C4, amended: a skip never leaves the cursor's chunk. It moves the episode time by the
  delta and clamps it to the bounds of the current chunk, from the start of the chunk to
  the start plus the duration the media element reports, without wrapping around. When
  the chunks are in ascending index order with no negative duration, the media element
  reports the duration recorded for the cursor's chunk and the target stays inside that
  chunk, the skip is the episode-level seek to the current episode time plus the delta.
\<close>

theorem skip_clamps_within_chunk:
  assumes "audio s = Some a"
  shows "currentChunkIndex (skip secs s) = currentChunkIndex s
       \<and> chunks (skip secs s) = chunks s
       \<and> episodeTimeNow (skip secs s)
           = max (calculateEpisodeTime (chunks s) (currentChunkIndex s))
               (min (calculateEpisodeTime (chunks s) (currentChunkIndex s) + or0 (duration a))
                    (episodeTimeNow s + secs))
       \<and> (sorted_wrt (<) (map chunk_index (chunks s))
            \<and> (\<forall>x \<in> set (chunks s). 0 \<le> or0 (duration_secs x))
            \<and> totalEpisodeDuration s \<noteq> 0
            \<and> (\<exists>c \<in> set (chunks s).
                  chunk_index c = currentChunkIndex s \<and> duration_secs c = duration a)
            \<and> 0 \<le> currentTime a + secs
            \<and> currentTime a + secs < or0 (duration a)
          \<longrightarrow> fs_scrubber_input
                (100 * (episodeTimeNow s + secs) / totalEpisodeDuration s) s
              = skip secs s)"
proof -
  have "fs_scrubber_input (100 * (episodeTimeNow s + secs) / totalEpisodeDuration s) s
          = skip secs s"
    if asc: "sorted_wrt (<) (map chunk_index (chunks s))"
      and nonneg: "\<forall>x \<in> set (chunks s). 0 \<le> or0 (duration_secs x)"
      and tot: "totalEpisodeDuration s \<noteq> 0"
      and cur: "\<exists>c \<in> set (chunks s).
                  chunk_index c = currentChunkIndex s \<and> duration_secs c = duration a"
      and lo: "0 \<le> currentTime a + secs"
      and hi: "currentTime a + secs < or0 (duration a)"
  proof -
    from cur obtain c where c: "c \<in> set (chunks s)" "chunk_index c = currentChunkIndex s"
      "duration_secs c = duration a" by blast
    show ?thesis
      by (rule skip_eq_seek_inside [OF assms asc nonneg tot c(1) c(2)])
         (use c(3) lo hi in simp_all)
  qed
  with skip_episodeTime [OF assms, of secs] show ?thesis by blast
qed

theorem skip_clamps_within_chunk_witness:
  "currentChunkIndex (skip 3 sample_at_95) = 0
   \<and> episodeTimeNow (skip 3 sample_at_95) = 98
   \<and> fs_scrubber_input (100 * (episodeTimeNow sample_at_95 + 3)
                          / totalEpisodeDuration sample_at_95) sample_at_95
       = skip 3 sample_at_95"
proof -
  have a: "audio sample_at_95 = Some \<lparr> src = (1, 0), currentTime = 95, duration = Some 100 \<rparr>"
    by (simp add: sample_defs player_defs)
  have st: "chunks sample_at_95 = chunks_100_50_30" "currentChunkIndex sample_at_95 = 0"
    "totalEpisodeDuration sample_at_95 = 180"
    by (simp_all add: sample_defs player_defs)
  have e: "episodeTimeNow sample_at_95 = 95"
    by (simp add: episodeTimeNow_def a st calculateEpisodeTime_def chunks_100_50_30_def
        ready_chunk_def)
  from skip_clamps_within_chunk [OF a, of 3] show ?thesis
    by (simp add: st e calculateEpisodeTime_def chunks_100_50_30_def ready_chunk_def or0_def)
qed

section \<open>Elapsed time after a resume\<close>

text \<open>
  C5. The elapsed time is claimed to lie between 0 and the total duration after every
  operation, the elapsed time being the start of the cursor's chunk plus the offset.
  \<open>loadEpisode\<close> with a persisted position subtracts the duration of the cursor's chunk
  from the start of that chunk before it adds the position: resuming the sample episode
  at 0:10 of chunk 0 leaves the cursor at chunk 0 and the offset at 10, and sets the
  episode time to -90.
\<close>

theorem loadEpisode_resume_elapsed_negative:
  "currentChunkIndex resumed_at_10 = 0
   \<and> map_option currentTime (audio resumed_at_10) = Some 10
   \<and> totalEpisodeDuration resumed_at_10 = 180
   \<and> episodeTimeNow resumed_at_10 = 10
   \<and> currentEpisodeTime resumed_at_10 = - 90
   \<and> \<not> 0 \<le> currentEpisodeTime resumed_at_10"
  by (simp add: resumed_at_10_def sample_defs player_defs episodeTimeNow_def)

section \<open>Monotonicity of the chunk lookup\<close>

text \<open>
  Where the loop finds a chunk for both target times, that is below the total duration,
  the lookup is monotone on chunks in ascending index order.
\<close>

lemma scanChunks_monotone:
  assumes "sorted_wrt (<) (map chunk_index cs)"
    and "t1 \<le> t2"
    and "scanChunks t1 acc cs = Some c1"
    and "scanChunks t2 acc cs = Some c2"
  shows "chunk_index c1 \<le> chunk_index c2"
  using assms
proof (induction cs arbitrary: acc)
  case Nil
  then show ?case by simp
next
  case (Cons c cs)
  let ?next = "acc + or0 (duration_secs c)"
  show ?case
  proof (cases "t2 < ?next")
    case True
    with Cons.prems show ?thesis by (simp add: Let_def)
  next
    case later: False
    then have rest2: "scanChunks t2 ?next cs = Some c2"
      using Cons.prems(4) by (simp add: Let_def)
    show ?thesis
    proof (cases "t1 < ?next")
      case True
      then have "c1 = c" using Cons.prems(3) by (simp add: Let_def)
      moreover have "c2 \<in> set cs" using rest2 by (rule scanChunks_mem)
      ultimately show ?thesis using Cons.prems(1) by auto
    next
      case False
      then have "scanChunks t1 ?next cs = Some c1"
        using Cons.prems(3) by (simp add: Let_def)
      with rest2 Cons.prems(1,2) show ?thesis
        by (intro Cons.IH [of ?next]) simp_all
    qed
  qed
qed

text \<open>
  C6. The chunk resolved for a later target time is claimed never to come before the one
  resolved for an earlier time, also beyond the total duration. On the sample episode
  the target 120 resolves to chunk 1 and the later target 180 (the scrubber at 100
  percent) to chunk 0.
\<close>

theorem findTargetChunk_not_monotone_at_total:
  "(120 :: real) < 180
   \<and> map_option chunk_index (findTargetChunk chunks_100_50_30 120) = Some 1
   \<and> map_option chunk_index (findTargetChunk chunks_100_50_30 180) = Some 0"
  by (simp add: sample_defs player_defs)

section \<open>Advancing to the next chunk\<close>

text \<open>
  The next button: on three ready chunks with distinct indices, starting on the first
  one, it moves the cursor to the second and to the third chunk, and does nothing on the
  third.
\<close>

lemma nextChunk_three_chunks:
  assumes ep: "currentEpisode s = Some ep"
    and cs: "chunks s = [c0, c1, c2]"
    and dist: "distinct [chunk_index c0, chunk_index c1, chunk_index c2]"
    and start: "currentChunkIndex s = chunk_index c0"
  shows "currentChunkIndex (nextChunk s) = chunk_index c1
       \<and> currentChunkIndex (nextChunk (nextChunk s)) = chunk_index c2
       \<and> nextChunk (nextChunk (nextChunk s)) = nextChunk (nextChunk s)"
proof -
  have n1: "chunks (nextChunk s) = [c0, c1, c2]" "currentEpisode (nextChunk s) = Some ep"
    "currentChunkIndex (nextChunk s) = chunk_index c1"
    using nextChunk_advance [of s 0] ep cs start by simp_all
  have n2: "chunks (nextChunk (nextChunk s)) = [c0, c1, c2]"
    "currentChunkIndex (nextChunk (nextChunk s)) = chunk_index c2"
    using nextChunk_advance [of "nextChunk s" 1] n1 dist by simp_all
  have n3: "nextChunk (nextChunk (nextChunk s)) = nextChunk (nextChunk s)"
    using n2 dist by (simp add: nextChunk_def [of "nextChunk (nextChunk s)"])
  from n1 n2 n3 show ?thesis by simp
qed

text \<open>
  C7. Advancing at the end of each chunk is claimed to take the cursor through chunks 0,
  1 and 2 of a three-chunk episode and to complete the episode at the end of chunk 2.
  The handler of the \<open>ended\<close> event stores the history entry and then throws in
  \<open>addToHistory\<close>, before it looks for the next chunk. At the end of chunk 0 of the sample
  episode the cursor stays on chunk 0 and nothing is loaded; at the end of chunk 2 no
  position is saved and no completion is shown.
\<close>

theorem onEnded_throws_before_advance:
  "onEnded (media_played 100 (sample_on_chunk 0))
     = Inl (TypeError, emit (AddToHistory 1 100) (media_played 100 (sample_on_chunk 0)))
   \<and> currentChunkIndex (emit (AddToHistory 1 100) (media_played 100 (sample_on_chunk 0))) = 0
   \<and> effects (emit (AddToHistory 1 100) (media_played 100 (sample_on_chunk 0)))
       = [MediaLoad 1 0, MediaPlay, AddToHistory 1 100]
   \<and> onEnded (media_played 30 (sample_on_chunk 2))
       = Inl (TypeError, emit (AddToHistory 1 100) (media_played 30 (sample_on_chunk 2)))
   \<and> currentChunkIndex (emit (AddToHistory 1 100) (media_played 30 (sample_on_chunk 2))) = 2
   \<and> effects (emit (AddToHistory 1 100) (media_played 30 (sample_on_chunk 2)))
       = [MediaLoad 1 2, MediaPlay, AddToHistory 1 100]"
  by (simp add: onEnded_def addToHistory_def media_played_def sample_defs player_defs)

section \<open>Loading an episode\<close>

text \<open>
  C8, as stated: the load keeps the ready chunks in ascending index order, for every raw
  list. The load filters and never sorts: the raw list with indices 1, 0 is kept as 1, 0.
\<close>

theorem loadEpisode_does_not_sort:
  "map chunk_index (chunks (loadEpisode unsorted_episode None idle_player)) = [1, 0]
   \<and> \<not> sorted (map chunk_index (chunks (loadEpisode unsorted_episode None idle_player)))"
  by (simp add: unsorted_episode_def idle_player_def ready_chunk_def loadEpisode_chunks
      readyChunks_def rawChunks_def)

text \<open>
  C8, amended: the load keeps exactly the chunks whose status is ready, in the order of
  the raw list, hence in ascending index order when the raw list is ascending. If no
  chunk is ready it shows the error notice ``No ready chunks to play'' and touches
  neither the media element nor the cursor, the episode time and the total duration.
\<close>

theorem loadEpisode_keeps_ready_in_source_order:
  "chunks (loadEpisode ep startChunk s) = filter (\<lambda>c. status c = ''ready'') (rawChunks ep)
   \<and> (sorted_wrt (<) (map chunk_index (rawChunks ep))
        \<longrightarrow> sorted_wrt (<) (map chunk_index (chunks (loadEpisode ep startChunk s))))
   \<and> (filter (\<lambda>c. status c = ''ready'') (rawChunks ep) = []
        \<longrightarrow> effects (loadEpisode ep startChunk s)
              = effects s @ [Toast ''No ready chunks to play'' ''error'']
          \<and> audio (loadEpisode ep startChunk s) = audio s
          \<and> currentChunkIndex (loadEpisode ep startChunk s) = currentChunkIndex s
          \<and> currentEpisodeTime (loadEpisode ep startChunk s) = currentEpisodeTime s
          \<and> totalEpisodeDuration (loadEpisode ep startChunk s) = totalEpisodeDuration s)"
proof -
  have ch: "chunks (loadEpisode ep startChunk s) = filter (\<lambda>c. status c = ''ready'') (rawChunks ep)"
    by (simp add: loadEpisode_chunks readyChunks_def)
  have "sorted_wrt (<) (map chunk_index (filter (\<lambda>c. status c = ''ready'') (rawChunks ep)))"
    if "sorted_wrt (<) (map chunk_index (rawChunks ep))"
    using that by (simp add: sorted_wrt_map sorted_wrt_filter)
  moreover have "effects (loadEpisode ep startChunk s)
              = effects s @ [Toast ''No ready chunks to play'' ''error'']
          \<and> audio (loadEpisode ep startChunk s) = audio s
          \<and> currentChunkIndex (loadEpisode ep startChunk s) = currentChunkIndex s
          \<and> currentEpisodeTime (loadEpisode ep startChunk s) = currentEpisodeTime s
          \<and> totalEpisodeDuration (loadEpisode ep startChunk s) = totalEpisodeDuration s"
    if "filter (\<lambda>c. status c = ''ready'') (rawChunks ep) = []"
    using that by (simp add: loadEpisode_empty readyChunks_def)
  ultimately show ?thesis using ch by simp
qed

theorem loadEpisode_keeps_ready_in_source_order_witness:
  "chunks (loadEpisode sample_episode None idle_player) = chunks_100_50_30
   \<and> sorted_wrt (<) (map chunk_index (chunks (loadEpisode sample_episode None idle_player)))
   \<and> effects (loadEpisode pending_episode None (sample_on_chunk 1))
       = effects (sample_on_chunk 1) @ [Toast ''No ready chunks to play'' ''error'']
   \<and> currentChunkIndex (loadEpisode pending_episode None (sample_on_chunk 1)) = 1"
proof -
  have r: "rawChunks sample_episode = chunks_100_50_30"
    by (simp add: rawChunks_def sample_episode_def)
  have f: "filter (\<lambda>c. status c = ''ready'') chunks_100_50_30 = chunks_100_50_30"
    by (simp add: chunks_100_50_30_def ready_chunk_def)
  have a: "sorted_wrt (<) (map chunk_index chunks_100_50_30)"
    by (simp add: chunks_100_50_30_def ready_chunk_def)
  have p: "filter (\<lambda>c. status c = ''ready'') (rawChunks pending_episode) = []"
    by (simp add: rawChunks_def pending_episode_def)
  have k: "currentChunkIndex (sample_on_chunk 1) = 1"
    by (simp add: sample_defs player_defs)
  from loadEpisode_keeps_ready_in_source_order [of sample_episode None idle_player]
    loadEpisode_keeps_ready_in_source_order [of pending_episode None "sample_on_chunk 1"]
  show ?thesis
    by (simp only: r f a p k simp_thms)
qed

section \<open>Resuming\<close>

text \<open>
  C9, as stated: a resume that names a chunk absent from the ready sequence falls back to
  the first ready chunk at offset 0 and reports a warning. The fallback is silent: with
  the persisted index 7 on the sample episode the cursor goes to chunk 0 at offset 0, the
  media is loaded and played, and no notice is shown.
\<close>

theorem loadEpisode_fallback_silent:
  "currentChunkIndex resumed_on_missing_chunk = 0
   \<and> map_option currentTime (audio resumed_on_missing_chunk) = Some 0
   \<and> effects resumed_on_missing_chunk = [MediaLoad 1 0, MediaPlay]
   \<and> toasts (effects resumed_on_missing_chunk) = []"
  by (simp add: resumed_on_missing_chunk_def sample_defs player_defs toasts_def)

text \<open>
  C9, amended: when some chunk is ready, the load does not fail and shows no notice. A
  requested index that is absent from the ready sequence falls back to the first ready
  chunk, silently. A requested index that is present becomes the cursor, and the offset
  is the persisted position for a resume and 0 for an explicit start chunk.
\<close>

theorem loadEpisode_resume_target:
  assumes "readyChunks ep = c0 # rest"
  shows "(requestedChunk ep startChunk \<notin> chunk_index ` set (readyChunks ep)
            \<longrightarrow> currentChunkIndex (loadEpisode ep startChunk s) = chunk_index c0)
       \<and> (requestedChunk ep startChunk \<in> chunk_index ` set (readyChunks ep)
            \<longrightarrow> currentChunkIndex (loadEpisode ep startChunk s) = requestedChunk ep startChunk
              \<and> map_option currentTime (audio (loadEpisode ep startChunk s))
                  = Some (if startChunk = None then or0 (position_secs ep) else 0))
       \<and> effects (loadEpisode ep startChunk s)
           = effects s @ [MediaLoad (episode_id ep)
                            (currentChunkIndex (loadEpisode ep startChunk s)), MediaPlay]
       \<and> toasts (effects (loadEpisode ep startChunk s)) = toasts (effects s)"
proof -
  have "\<not> truthy (position_secs ep) \<Longrightarrow> or0 (position_secs ep) = 0"
    by (simp add: truthy_def or0_def split: option.splits)
  then show ?thesis
    unfolding loadEpisode_nonempty [OF assms] assms
    by (auto simp: Let_def toasts_def)
qed

theorem loadEpisode_resume_target_witness:
  "currentChunkIndex (loadEpisode (sample_episode\<lparr>current_chunk_index := Some 7\<rparr>) None
       idle_player) = 0
   \<and> currentChunkIndex
        (loadEpisode (sample_episode\<lparr>current_chunk_index := Some 1, position_secs := Some 12\<rparr>)
           None idle_player) = 1
   \<and> map_option currentTime
        (audio (loadEpisode
                  (sample_episode\<lparr>current_chunk_index := Some 1, position_secs := Some 12\<rparr>)
                  None idle_player)) = Some 12"
proof -
  let ?e7 = "sample_episode\<lparr>current_chunk_index := Some 7\<rparr>"
  let ?e1 = "sample_episode\<lparr>current_chunk_index := Some 1, position_secs := Some 12\<rparr>"
  have r7: "readyChunks ?e7 = ready_chunk 0 100 # [ready_chunk 1 50, ready_chunk 2 30]"
    by (simp add: readyChunks_def rawChunks_def sample_defs)
  have r1: "readyChunks ?e1 = ready_chunk 0 100 # [ready_chunk 1 50, ready_chunk 2 30]"
    by (simp add: readyChunks_def rawChunks_def sample_defs)
  have q7: "requestedChunk ?e7 None = 7" by (simp add: requestedChunk_def)
  have q1: "requestedChunk ?e1 None = 1" by (simp add: requestedChunk_def)
  from loadEpisode_resume_target [OF r7, of None idle_player]
    loadEpisode_resume_target [OF r1, of None idle_player]
  show ?thesis
    by (simp add: r7 r1 q7 q1 ready_chunk_def or0_def)
qed

section \<open>Persisted percentage\<close>

text \<open>
  C10. Every payload produced by \<open>savePosition\<close> has \<open>percent_listened\<close> at most 100,
  whatever the cursor, the number of chunks and the forced percentage are.
\<close>

theorem savePosition_percent_le_100:
  "savePosition_payload forcePct s = Some p \<Longrightarrow> percent_listened p \<le> 100"
  by (auto simp: savePosition_payload_def Let_def split: option.splits)

theorem savePosition_percent_le_100_witness:
  "savePosition_payload (Some 250)
       (idle_player\<lparr>currentEpisode := Some sample_episode, chunks := chunks_100_50_30\<rparr>)
     = Some \<lparr> payload_chunk_index = 0, payload_position_secs = 0, percent_listened = 100 \<rparr>
   \<and> percent_listened
       \<lparr> payload_chunk_index = 0, payload_position_secs = 0, percent_listened = 100 \<rparr> \<le> 100"
proof -
  have e: "savePosition_payload (Some 250)
       (idle_player\<lparr>currentEpisode := Some sample_episode, chunks := chunks_100_50_30\<rparr>)
     = Some \<lparr> payload_chunk_index = 0, payload_position_secs = 0, percent_listened = 100 \<rparr>"
    by (simp add: savePosition_payload_def idle_player_def chunks_100_50_30_def ready_chunk_def)
  from savePosition_percent_le_100 [OF e] e show ?thesis by simp
qed

end
